theory Spec2Isabelle
  imports Complex_Main "HOL-Library.Word"
begin

section \<open>Machine types\<close>

type_synonym uint8 = "8 word"
type_synonym uint16 = "16 word"
type_synonym uint32 = "32 word"

text \<open>Simulation time, in seconds.\<close>

type_synonym simtime_t = real

section \<open>SimpleVoIPReceiver: talkspurts\<close>

record VoIPPacketInfo =
  packetID :: uint32
  creationTime :: simtime_t
  arrivalTime :: simtime_t
  playoutTime :: simtime_t

datatype Status = EMPTY | ACTIVE | FINISHED

record TalkspurtInfo =
  status :: Status
  talkspurtID :: uint32
  talkspurtNumPackets :: uint32
  voiceDuration :: simtime_t
  packets :: "VoIPPacketInfo list"

text \<open>\<^verbatim>\<open>void finishTalkspurt() { status = FINISHED; packets.clear(); }\<close>\<close>

definition finishTalkspurt :: "TalkspurtInfo \<Rightarrow> TalkspurtInfo" where
  "finishTalkspurt t = t\<lparr>status := FINISHED, packets := []\<rparr>"

text \<open>\<^verbatim>\<open>bool isActive() { return (status == ACTIVE); }\<close>\<close>

definition isActive :: "TalkspurtInfo \<Rightarrow> bool" where
  "isActive t = (status t = ACTIVE)"

section \<open>SCTP association: messages, chunks and parameters\<close>

datatype IPvXAddress = IPv4 uint32 | IPv6 "128 word"

fun isIPv6 :: "IPvXAddress \<Rightarrow> bool" where
  "isIPv6 (IPv4 _) = False"
| "isIPv6 (IPv6 _) = True"

text \<open>The address written \<^verbatim>\<open>IPvXAddress("0.0.0.0")\<close> in the source.\<close>

definition wildcardAddress :: IPvXAddress where
  "wildcardAddress = IPv4 0"

text \<open>
  Modelled from the spec: the chunk and parameter type codes of the wire format
  (ASCONF chunk type 0xC1; parameter types ADD_IP 0xC001, DELETE_IP 0xC002,
  SET_PRIMARY 0xC004). The header that defines these macros is not among the sources.
\<close>

definition ASCONF :: int where
  "ASCONF = 0xC1"

definition ADD_IP_ADDRESS :: int where
  "ADD_IP_ADDRESS = 0xC001"

definition DELETE_IP_ADDRESS :: int where
  "DELETE_IP_ADDRESS = 0xC002"

definition SET_PRIMARY_ADDRESS :: int where
  "SET_PRIMARY_ADDRESS = 0xC004"

text \<open>
  An ASCONF parameter object. The three parameter classes of the source
  (\<^verbatim>\<open>SCTPAddIPParameter\<close>, \<^verbatim>\<open>SCTPDeleteIPParameter\<close>, \<^verbatim>\<open>SCTPSetPrimaryIPParameter\<close>)
  carry the same fields; the object's name tells them apart.
\<close>

record SCTPParameter =
  parameterName :: string
  parameterType :: int
  requestCorrelationId :: uint32
  parameterAddressParam :: IPvXAddress
  parameterBitLength :: int

record SCTPAsconfChunk =
  chunkName :: string
  chunkType :: int
  serialNumber :: uint32
  addressParam :: IPvXAddress
  chunkPeerVTag :: uint32
  chunkBitLength :: int
  asconfParams :: "SCTPParameter list"

record SCTPAuthenticationChunk =
  authName :: string
  authChunkType :: int
  authSharedKey :: uint16
  hMacIdentifier :: uint16
  hMacOk :: bool
  HMAC :: "uint8 list"
  authBitLength :: int

datatype SCTPChunk = AuthenticationChunk SCTPAuthenticationChunk | AsconfChunk SCTPAsconfChunk

text \<open>
  A message holds its chunks in the order of the \<^verbatim>\<open>addChunk\<close> calls, a chunk its
  parameters in the order of the \<^verbatim>\<open>addAsconfParam\<close> calls. The length fields hold what
  the functions of this file set; the message classes themselves are not among the
  sources. A field no call has set is 0 (the unspecified IPv4 address for an address).
\<close>

record SCTPMessage =
  msgName :: string
  msgBitLength :: int
  srcPort :: int
  destPort :: int
  chunks :: "SCTPChunk list"

text \<open>
  The per-association state block. \<^verbatim>\<open>asconfChunk\<close> is a pointer in the source:
  \<open>None\<close> is the null pointer. The key vectors and the shared key are byte
  storage read and written by index. Serial numbers and correlation identifiers are
  \<^verbatim>\<open>uint32\<close>, as in \<^verbatim>\<open>sendAsconfAck(const uint32 serialNumber)\<close> and
  \<^verbatim>\<open>createSuccessIndication(const uint32 correlationId)\<close>.
\<close>

record SCTPStateVariables =
  asconfOutstanding :: bool
  asconfSn :: uint32
  corrIdNum :: uint32
  asconfChunk :: "SCTPAsconfChunk option"
  localAddresses :: "IPvXAddress list"
  auth :: bool
  peerAuth :: bool
  keyVector :: "uint8 list"
  sizeKeyVector :: uint32
  peerKeyVector :: "uint8 list"
  sizePeerKeyVector :: uint32
  sharedKey :: "uint8 list"
  peerChunkList :: "uint16 list"

record SCTPAssociation =
  state :: SCTPStateVariables
  localAddr :: IPvXAddress
  remoteAddr :: IPvXAddress
  localPort :: int
  remotePort :: int
  peerVTag :: uint32
  remoteAddressList :: "IPvXAddress list"

text \<open>
  What the functions below use and this file does not define: the length macros, the
  AUTH chunk type, the module parameter \<^verbatim>\<open>natFriendly\<close>, \<^verbatim>\<open>getLevel\<close>, the address
  that \<^verbatim>\<open>IPAddressResolver().resolve(sctpMain->par("addAddress"), 1)\<close> yields, and
  \<^verbatim>\<open>getNextAddress(getPath(addr))\<close>. They are parameters of the model.
\<close>

record SCTPEnv =
  SCTP_COMMON_HEADER :: int
  SCTP_ADD_IP_CHUNK_LENGTH :: int
  SCTP_ADD_IP_PARAMETER_LENGTH :: int
  SCTP_AUTH_CHUNK_LENGTH :: int
  SHA_LENGTH :: nat
  AUTH :: int
  natFriendly :: bool
  getLevel :: "IPvXAddress \<Rightarrow> int"
  addAddress :: IPvXAddress
  getNextAddressOfPath :: "IPvXAddress \<Rightarrow> IPvXAddress"

text \<open>
  The effects of a call on the world outside the association: a message handed to
  \<^verbatim>\<open>sendToIP\<close> (with the destination when the call names one), and a call of
  \<^verbatim>\<open>sctpMain->addLocalAddressToAllRemoteAddresses\<close>.
\<close>

datatype Event =
    SendToIP SCTPMessage "IPvXAddress option"
  | AddLocalAddressToAllRemoteAddresses IPvXAddress "IPvXAddress list"

fun isSendToIP :: "Event \<Rightarrow> bool" where
  "isSendToIP (SendToIP _ _) = True"
| "isSendToIP (AddLocalAddressToAllRemoteAddresses _ _) = False"

fun asconfChunksOf :: "SCTPChunk list \<Rightarrow> SCTPAsconfChunk list" where
  "asconfChunksOf [] = []"
| "asconfChunksOf (AsconfChunk c # cs) = c # asconfChunksOf cs"
| "asconfChunksOf (AuthenticationChunk _ # cs) = asconfChunksOf cs"

subsection \<open>createAuthChunk\<close>

definition createAuthChunk :: "SCTPEnv \<Rightarrow> SCTPAuthenticationChunk" where
  "createAuthChunk env =
     \<lparr>authName = ''AUTH'',
      authChunkType = AUTH env,
      authSharedKey = 0,
      hMacIdentifier = 1,
      hMacOk = True,
      HMAC = replicate (SHA_LENGTH env) 0,
      authBitLength = (SCTP_AUTH_CHUNK_LENGTH env + int (SHA_LENGTH env)) * 8\<rparr>"

subsection \<open>The C library calls of sendAsconf: strtok and atoi\<close>

text \<open>
  \<open>strtokAll cur s\<close> lists the tokens that \<^verbatim>\<open>strtok(s, ",")\<close> and the following
  \<^verbatim>\<open>strtok(NULL, ",")\<close> calls return: the maximal runs of characters other than the
  comma, in order; empty runs are no tokens. \<open>cur\<close> holds the current run, reversed.
\<close>

fun strtokAll :: "string \<Rightarrow> string \<Rightarrow> string list" where
  "strtokAll cur [] = (if cur = [] then [] else [rev cur])"
| "strtokAll cur (c # cs) =
     (if c = CHR '',''
      then (if cur = [] then strtokAll [] cs else rev cur # strtokAll [] cs)
      else strtokAll (c # cur) cs)"

definition isspace :: "char \<Rightarrow> bool" where
  "isspace c = (let n = (of_char c :: nat) in n = 32 \<or> (9 \<le> n \<and> n \<le> 13))"

definition isdigit :: "char \<Rightarrow> bool" where
  "isdigit c = (let n = (of_char c :: nat) in 48 \<le> n \<and> n \<le> 57)"

fun atoiDigits :: "int \<Rightarrow> string \<Rightarrow> int" where
  "atoiDigits acc [] = acc"
| "atoiDigits acc (c # cs) =
     (if isdigit c then atoiDigits (acc * 10 + (of_char c - 48)) cs else acc)"

text \<open>
  The conversion of an integer to \<^verbatim>\<open>int\<close> (\<^verbatim>\<open>int32\<close>): the value modulo \<open>2^32\<close>, read as
  two's complement. It leaves a value from \<open>-2^31\<close> to \<open>2^31 - 1\<close> as it is.
\<close>

definition toInt32 :: "int \<Rightarrow> int" where
  "toInt32 x = (x + 2 ^ 31) mod 2 ^ 32 - 2 ^ 31"

text \<open>
  \<^verbatim>\<open>strtol(s, NULL, 10)\<close>: leading white space, an optional sign, then decimal digits up
  to the first other character; 0 when there is no digit; a value outside \<^verbatim>\<open>long\<close>
  (64 bits) becomes the nearest bound.
\<close>

definition strtol :: "string \<Rightarrow> int" where
  "strtol s =
     (let v = (case dropWhile isspace s of
                 [] \<Rightarrow> 0
               | c # cs \<Rightarrow>
                   if c = CHR ''-'' then - atoiDigits 0 cs
                   else if c = CHR ''+'' then atoiDigits 0 cs
                   else atoiDigits 0 (c # cs))
      in max (- (2 ^ 63)) (min (2 ^ 63 - 1) v))"

text \<open>
  \<^verbatim>\<open>atoi\<close>, an \<^verbatim>\<open>int\<close>: as the C library computes it, \<^verbatim>\<open>(int) strtol(s, NULL, 10)\<close>. A
  token whose digits stand for a number outside \<^verbatim>\<open>int\<close> is taken modulo \<open>2^32\<close>; the
  \<^verbatim>\<open>switch\<close> of \<^verbatim>\<open>sendAsconf\<close> sees that value.
\<close>

definition atoi :: "string \<Rightarrow> int" where
  "atoi s = toInt32 (strtol s)"

subsection \<open>sendAsconf\<close>

text \<open>
  The variables the token loop of \<^verbatim>\<open>sendAsconf\<close> changes: the association state
  (\<^verbatim>\<open>corrIdNum\<close>, \<^verbatim>\<open>localAddresses\<close>), the chunk under construction, the local
  \<^verbatim>\<open>uint16 chunkLength\<close>, the local \<^verbatim>\<open>targetAddr\<close>, and the outside calls made so far.
\<close>

record AsconfVars =
  varState :: SCTPStateVariables
  varChunk :: SCTPAsconfChunk
  chunkLength :: uint16
  targetAddr :: IPvXAddress
  events :: "Event list"

text \<open>\<^verbatim>\<open>case ADD_IP_ADDRESS\<close>; \<open>natMode\<close> is the local \<^verbatim>\<open>nat\<close>.\<close>

definition caseAddIP :: "SCTPEnv \<Rightarrow> SCTPAssociation \<Rightarrow> bool \<Rightarrow> bool \<Rightarrow> AsconfVars \<Rightarrow> AsconfVars" where
  "caseAddIP env a natMode remote v =
     (let len1 = chunkLength v + word_of_int (SCTP_ADD_IP_PARAMETER_LENGTH env);
          corr = corrIdNum (varState v) + 1;
          st1 = (varState v)\<lparr>corrIdNum := corr\<rparr>;
          addr = (if natMode then wildcardAddress else addAddress env);
          st2 = (if natMode then st1\<lparr>localAddresses := localAddresses st1 @ [addAddress env]\<rparr>
                 else st1);
          evs = (if natMode
                 then events v @ [AddLocalAddressToAllRemoteAddresses (addAddress env) (remoteAddressList a)]
                 else events v);
          tgt = (if natMode
                 then (if remote then remoteAddr a else getNextAddressOfPath env (remoteAddr a))
                 else targetAddr v);
          len2 = len1 + (if isIPv6 addr then 20 else 8);
          ipParam = \<lparr>parameterName = ''AddIP'',
                     parameterType = ADD_IP_ADDRESS,
                     requestCorrelationId = corr,
                     parameterAddressParam = addr,
                     parameterBitLength =
                       (SCTP_ADD_IP_PARAMETER_LENGTH env + (if isIPv6 addr then 20 else 8)) * 8\<rparr>
      in v\<lparr>varState := st2,
           varChunk := (varChunk v)\<lparr>asconfParams := asconfParams (varChunk v) @ [ipParam]\<rparr>,
           chunkLength := len2,
           targetAddr := tgt,
           events := evs\<rparr>)"

text \<open>\<^verbatim>\<open>case DELETE_IP_ADDRESS\<close>\<close>

definition caseDeleteIP :: "SCTPEnv \<Rightarrow> AsconfVars \<Rightarrow> AsconfVars" where
  "caseDeleteIP env v =
     (let len1 = chunkLength v + word_of_int (SCTP_ADD_IP_PARAMETER_LENGTH env);
          corr = corrIdNum (varState v) + 1;
          addr = addAddress env;
          len2 = len1 + (if isIPv6 addr then 20 else 8);
          delParam = \<lparr>parameterName = ''DeleteIP'',
                      parameterType = DELETE_IP_ADDRESS,
                      requestCorrelationId = corr,
                      parameterAddressParam = addr,
                      parameterBitLength =
                        (SCTP_ADD_IP_PARAMETER_LENGTH env + (if isIPv6 addr then 20 else 8)) * 8\<rparr>
      in v\<lparr>varState := (varState v)\<lparr>corrIdNum := corr\<rparr>,
           varChunk := (varChunk v)\<lparr>asconfParams := asconfParams (varChunk v) @ [delParam]\<rparr>,
           chunkLength := len2\<rparr>)"

text \<open>\<^verbatim>\<open>case SET_PRIMARY_ADDRESS\<close>\<close>

definition caseSetPrimary :: "SCTPEnv \<Rightarrow> bool \<Rightarrow> AsconfVars \<Rightarrow> AsconfVars" where
  "caseSetPrimary env natMode v =
     (let len1 = chunkLength v + word_of_int (SCTP_ADD_IP_PARAMETER_LENGTH env);
          corr = corrIdNum (varState v) + 1;
          addr = (if natMode then wildcardAddress else addAddress env);
          len2 = len1 + (if isIPv6 addr then 20 else 8);
          priParam = \<lparr>parameterName = ''SetPrimary'',
                      parameterType = SET_PRIMARY_ADDRESS,
                      requestCorrelationId = corr,
                      parameterAddressParam = addr,
                      parameterBitLength =
                        (SCTP_ADD_IP_PARAMETER_LENGTH env + (if isIPv6 addr then 20 else 8)) * 8\<rparr>
      in v\<lparr>varState := (varState v)\<lparr>corrIdNum := corr\<rparr>,
           varChunk := (varChunk v)\<lparr>asconfParams := asconfParams (varChunk v) @ [priParam]\<rparr>,
           chunkLength := len2\<rparr>)"

text \<open>The \<^verbatim>\<open>switch (atoi(token))\<close>: it has no default label.\<close>

definition asconfSwitch ::
  "SCTPEnv \<Rightarrow> SCTPAssociation \<Rightarrow> bool \<Rightarrow> bool \<Rightarrow> int \<Rightarrow> AsconfVars \<Rightarrow> AsconfVars" where
  "asconfSwitch env a natMode remote tokenValue v =
     (if tokenValue = ADD_IP_ADDRESS then caseAddIP env a natMode remote v
      else if tokenValue = DELETE_IP_ADDRESS then caseDeleteIP env v
      else if tokenValue = SET_PRIMARY_ADDRESS then caseSetPrimary env natMode v
      else v)"

text \<open>The \<^verbatim>\<open>while (token != NULL)\<close> loop, over the tokens in order.\<close>

primrec asconfTokens ::
  "SCTPEnv \<Rightarrow> SCTPAssociation \<Rightarrow> bool \<Rightarrow> bool \<Rightarrow> string list \<Rightarrow> AsconfVars \<Rightarrow> AsconfVars" where
  "asconfTokens env a natMode remote [] v = v"
| "asconfTokens env a natMode remote (token # rest) v =
     asconfTokens env a natMode remote rest (asconfSwitch env a natMode remote (atoi token) v)"

text \<open>
  \<^verbatim>\<open>void SCTPAssociation::sendAsconf(const char* type, const bool remote)\<close>, in the
  three parts of its body. First the local \<^verbatim>\<open>nat\<close> and the variables as the token
  loop finds them: the new chunk with its serial number and address parameter, the
  chunk length so far, \<^verbatim>\<open>targetAddr = remoteAddr\<close>.
\<close>

definition isNatMode :: "SCTPEnv \<Rightarrow> SCTPAssociation \<Rightarrow> bool" where
  "isNatMode env a =
     (getLevel env (localAddr a) = 3 \<and> getLevel env (remoteAddr a) = 4 \<and> natFriendly env)"

definition asconfBegin :: "SCTPEnv \<Rightarrow> SCTPAssociation \<Rightarrow> AsconfVars" where
  "asconfBegin env a =
     (let len0 = (word_of_int (SCTP_ADD_IP_CHUNK_LENGTH env) :: uint16)
                   + (if isIPv6 (localAddr a) then 20 else 8)
      in \<lparr>varState = state a,
          varChunk =
            \<lparr>chunkName = ''ASCONF-CHUNK'',
             chunkType = ASCONF,
             serialNumber = asconfSn (state a),
             addressParam = (if isNatMode env a then wildcardAddress else localAddr a),
             chunkPeerVTag = (if isNatMode env a then peerVTag a else 0),
             chunkBitLength = uint len0,
             asconfParams = []\<rparr>,
          chunkLength = len0,
          targetAddr = remoteAddr a,
          events = []\<rparr>)"

text \<open>
  After the loop: the final bit length, the optional AUTH chunk in front, the copy kept
  in \<^verbatim>\<open>state->asconfChunk\<close> under the name STATE-ASCONF, the call of \<^verbatim>\<open>sendToIP\<close> and
  the flag. \<^verbatim>\<open>dup()\<close> yields a copy equal to its object.
\<close>

definition asconfEnd :: "SCTPEnv \<Rightarrow> SCTPAssociation \<Rightarrow> AsconfVars \<Rightarrow> SCTPAssociation \<times> Event list" where
  "asconfEnd env a v =
     (let built = (varChunk v)\<lparr>chunkBitLength := uint (chunkLength v) * 8\<rparr>;
          sctpAsconf =
            \<lparr>msgName = ''ASCONF-MSG'',
             msgBitLength = SCTP_COMMON_HEADER env * 8,
             srcPort = localPort a,
             destPort = remotePort a,
             chunks = (if auth (varState v) \<and> peerAuth (varState v)
                       then [AuthenticationChunk (createAuthChunk env)] else [])
                      @ [AsconfChunk built]\<rparr>;
          st = (varState v)\<lparr>asconfChunk := Some (built\<lparr>chunkName := ''STATE-ASCONF''\<rparr>),
                            asconfOutstanding := True\<rparr>
      in (a\<lparr>state := st\<rparr>, events v @ [SendToIP sctpAsconf (Some (targetAddr v))]))"

text \<open>
  The whole function. The result is the association after the call and the outside
  calls it made, in order.
\<close>

definition sendAsconf ::
  "SCTPEnv \<Rightarrow> string \<Rightarrow> bool \<Rightarrow> SCTPAssociation \<Rightarrow> SCTPAssociation \<times> Event list" where
  "sendAsconf env changeTypes remote a =
     (if asconfOutstanding (state a) = False then
        asconfEnd env a
          (asconfTokens env a (isNatMode env a) remote (strtokAll [] changeTypes)
             (asconfBegin env a))
      else (a, []))"

subsection \<open>retransmitAsconf\<close>

text \<open>
  \<^verbatim>\<open>void SCTPAssociation::retransmitAsconf()\<close>. It dereferences \<^verbatim>\<open>state->asconfChunk\<close>:
  with no retained chunk there is no result (\<open>None\<close>). The message is built by the
  default constructor (no name, ports unset) and sent with the one-argument
  \<^verbatim>\<open>sendToIP\<close>.
\<close>

definition retransmitAsconf :: "SCTPEnv \<Rightarrow> SCTPAssociation \<Rightarrow> (SCTPAssociation \<times> Event list) option" where
  "retransmitAsconf env a =
     (case asconfChunk (state a) of
        None \<Rightarrow> None
      | Some retained \<Rightarrow>
          (let sctpasconf = retained\<lparr>chunkType := ASCONF, chunkBitLength := chunkBitLength retained\<rparr>;
               sctpmsg =
                 \<lparr>msgName = [],
                  msgBitLength = SCTP_COMMON_HEADER env * 8,
                  srcPort = 0,
                  destPort = 0,
                  chunks = (if auth (state a) \<and> peerAuth (state a)
                            then [AuthenticationChunk (createAuthChunk env)] else [])
                           @ [AsconfChunk sctpasconf]\<rparr>
           in Some (a, [SendToIP sctpmsg None])))"

text \<open>The correlation identifiers of the parameters of a chunk, in order.\<close>

definition correlationIds :: "SCTPAsconfChunk \<Rightarrow> uint32 list" where
  "correlationIds c = map requestCorrelationId (asconfParams c)"

text \<open>The correlation identifiers of the chunk an association retains.\<close>

definition retainedCorrelationIds :: "SCTPAssociation \<Rightarrow> uint32 list" where
  "retainedCorrelationIds a =
     (case asconfChunk (state a) of None \<Rightarrow> [] | Some c \<Rightarrow> correlationIds c)"

text \<open>The change types \<^verbatim>\<open>sendAsconf\<close> has a case label for.\<close>

definition knownType :: "int \<Rightarrow> bool" where
  "knownType t = (t = ADD_IP_ADDRESS \<or> t = DELETE_IP_ADDRESS \<or> t = SET_PRIMARY_ADDRESS)"

text \<open>The values of the tokens of a type string that have a case label, in order.\<close>

definition knownTokens :: "string \<Rightarrow> int list" where
  "knownTokens changeTypes = filter knownType (map atoi (strtokAll [] changeTypes))"

subsection \<open>compareRandom and calculateAssocSharedKey\<close>

text \<open>A read or write outside the storage of a byte array.\<close>

datatype error = OutOfBounds

text \<open>
  \<^verbatim>\<open>for (i=hi; i>lo; i--) if (v[i]!=0) return ...;\<close>: the result says whether a
  non-zero byte was met. The index stays above \<open>lo\<close>, so it is never negative.
\<close>

fun scanExcess :: "uint8 list \<Rightarrow> nat \<Rightarrow> nat \<Rightarrow> error + bool" where
  "scanExcess v lo 0 = Inr False"
| "scanExcess v lo (Suc j) =
     (if Suc j > lo
      then (if Suc j < length v
            then (if v ! Suc j \<noteq> 0 then Inr True else scanExcess v lo j)
            else Inl OutOfBounds)
      else Inr False)"

text \<open>
  \<^verbatim>\<open>for(i=start; i>0; i--) { if (key[i]<peer[i]) return false; if (key[i]>peer[i]) return true; }
  return true;\<close>
\<close>

fun compareLoop :: "uint8 list \<Rightarrow> uint8 list \<Rightarrow> nat \<Rightarrow> error + bool" where
  "compareLoop key peer 0 = Inr True"
| "compareLoop key peer (Suc j) =
     (if Suc j < length key \<and> Suc j < length peer
      then (if key ! Suc j < peer ! Suc j then Inr False
            else if key ! Suc j > peer ! Suc j then Inr True
            else compareLoop key peer j)
      else Inl OutOfBounds)"

text \<open>
  \<^verbatim>\<open>bool SCTPAssociation::compareRandom()\<close>. The declaration of the state block is not
  among the sources, so what \<^verbatim>\<open>sizeof(state->keyVector)\<close> and
  \<^verbatim>\<open>sizeof(state->peerKeyVector)\<close> yield are the parameters \<open>sizeofKeyVector\<close> and
  \<open>sizeofPeerKeyVector\<close> (constants of the program, the same at every endpoint, and
  small enough for \<^verbatim>\<open>int32\<close>). The local \<^verbatim>\<open>size\<close> is assigned only when the two differ;
  when they are equal the last loop reads it unassigned, and \<open>sizeLocal\<close> is the value it
  then holds. The loop starts at \<^verbatim>\<open>size-1\<close> in \<^verbatim>\<open>int32\<close> arithmetic: from the least
  \<^verbatim>\<open>int32\<close> it wraps to the greatest.
\<close>

definition compareRandom :: "nat \<Rightarrow> nat \<Rightarrow> int \<Rightarrow> SCTPStateVariables \<Rightarrow> error + bool" where
  "compareRandom sizeofKeyVector sizeofPeerKeyVector sizeLocal st =
     (if sizeofKeyVector \<noteq> sizeofPeerKeyVector then
        (if sizeofPeerKeyVector > sizeofKeyVector then
           (case scanExcess (peerKeyVector st) sizeofKeyVector (sizeofPeerKeyVector - 1) of
              Inl e \<Rightarrow> Inl e
            | Inr found \<Rightarrow>
                if found then Inr False
                else compareLoop (keyVector st) (peerKeyVector st) (sizeofKeyVector - 1))
         else
           (case scanExcess (keyVector st) sizeofPeerKeyVector (sizeofKeyVector - 1) of
              Inl e \<Rightarrow> Inl e
            | Inr found \<Rightarrow>
                if found then Inr True
                else compareLoop (keyVector st) (peerKeyVector st) (sizeofPeerKeyVector - 1)))
      else compareLoop (keyVector st) (peerKeyVector st) (nat (toInt32 (sizeLocal - 1))))"

text \<open>
  \<^verbatim>\<open>for (uint32 i=0; i<n; i++) dst[i+off] = src[i];\<close> over the indices given;
  the index sum is a \<^verbatim>\<open>uint32\<close>.
\<close>

primrec copyBytes :: "uint8 list \<Rightarrow> nat \<Rightarrow> nat list \<Rightarrow> uint8 list \<Rightarrow> error + uint8 list" where
  "copyBytes src off [] dst = Inr dst"
| "copyBytes src off (i # rest) dst =
     (if i < length src \<and> (i + off) mod 2 ^ 32 < length dst
      then copyBytes src off rest (dst[(i + off) mod 2 ^ 32 := src ! i])
      else Inl OutOfBounds)"

text \<open>\<^verbatim>\<open>void SCTPAssociation::calculateAssocSharedKey()\<close>\<close>

definition calculateAssocSharedKey ::
  "nat \<Rightarrow> nat \<Rightarrow> int \<Rightarrow> SCTPStateVariables \<Rightarrow> error + SCTPStateVariables" where
  "calculateAssocSharedKey sizeofKeyVector sizeofPeerKeyVector sizeLocal st =
     (case compareRandom sizeofKeyVector sizeofPeerKeyVector sizeLocal st of
        Inl e \<Rightarrow> Inl e
      | Inr peerFirst \<Rightarrow>
          if peerFirst = True then
            (case copyBytes (keyVector st) 0 [0..<unat (sizeKeyVector st)] (sharedKey st) of
               Inl e \<Rightarrow> Inl e
             | Inr k1 \<Rightarrow>
                 (case copyBytes (peerKeyVector st) (unat (sizeKeyVector st))
                         [0..<unat (sizePeerKeyVector st)] k1 of
                    Inl e \<Rightarrow> Inl e
                  | Inr k2 \<Rightarrow> Inr (st\<lparr>sharedKey := k2\<rparr>)))
          else
            (case copyBytes (peerKeyVector st) 0 [0..<unat (sizePeerKeyVector st)] (sharedKey st) of
               Inl e \<Rightarrow> Inl e
             | Inr k1 \<Rightarrow>
                 (case copyBytes (keyVector st) (unat (sizePeerKeyVector st))
                         [0..<unat (sizeKeyVector st)] k1 of
                    Inl e \<Rightarrow> Inl e
                  | Inr k2 \<Rightarrow> Inr (st\<lparr>sharedKey := k2\<rparr>))))"

text \<open>The shared key a run of \<open>calculateAssocSharedKey\<close> leaves, when it leaves one.\<close>

definition sharedKeyOf :: "error + SCTPStateVariables \<Rightarrow> error + uint8 list" where
  "sharedKeyOf r = (case r of Inl e \<Rightarrow> Inl e | Inr st \<Rightarrow> Inr (sharedKey st))"

text \<open>
  The comparison as the specification words it, for reference: over the two key vectors
  with their explicit lengths, byte by byte from the most significant end down to the
  other end; when the lengths differ, a non-zero byte among the excess bytes of the
  longer vector decides outright (peer longer: false, own longer: true). As in the loops
  of the code, the most significant byte is the one with the highest index, and the
  excess bytes are those beyond the length of the shorter vector. Equal vectors give
  true.
\<close>

fun msbFirstCompare :: "uint8 list \<Rightarrow> uint8 list \<Rightarrow> bool" where
  "msbFirstCompare (x # xs) (y # ys) =
     (if x < y then False else if x > y then True else msbFirstCompare xs ys)"
| "msbFirstCompare _ _ = True"

definition compareRandom_spec :: "SCTPStateVariables \<Rightarrow> bool" where
  "compareRandom_spec st =
     (let own = take (unat (sizeKeyVector st)) (keyVector st);
          peer = take (unat (sizePeerKeyVector st)) (peerKeyVector st);
          n = min (length own) (length peer)
      in if length own < length peer \<and> list_ex (\<lambda>b. b \<noteq> 0) (drop n peer) then False
         else if length peer < length own \<and> list_ex (\<lambda>b. b \<noteq> 0) (drop n own) then True
         else msbFirstCompare (rev (take n own)) (rev (take n peer)))"

section \<open>RIP routing\<close>

text \<open>\<^verbatim>\<open>#define RIP_INFINITE_METRIC 16\<close>\<close>

definition RIP_INFINITE_METRIC :: int where
  "RIP_INFINITE_METRIC = 16"

datatype RouteType =
    RIP_ROUTE_RTE
  | RIP_ROUTE_STATIC
  | RIP_ROUTE_DEFAULT
  | RIP_ROUTE_REDISTRIBUTE
  | RIP_ROUTE_INTERFACE

text \<open>
  \<^verbatim>\<open>struct RIPRoute\<close>. The pointers \<^verbatim>\<open>route\<close> and \<^verbatim>\<open>ie\<close> are handles (\<open>None\<close> is NULL);
  \<open>rtype\<close> is the field \<^verbatim>\<open>type\<close> and \<open>fromAddr\<close> the field \<^verbatim>\<open>from\<close>.
\<close>

record RIPRoute =
  route :: nat
  rtype :: RouteType
  ie :: "nat option"
  fromAddr :: nat
  metric :: int
  tag :: uint16
  changed :: bool
  lastUpdateTime :: simtime_t

text \<open>The constructor \<^verbatim>\<open>RIPRoute(IRoute *route, RouteType type, int metric)\<close>.\<close>

definition newRIPRoute :: "nat \<Rightarrow> RouteType \<Rightarrow> int \<Rightarrow> RIPRoute" where
  "newRIPRoute r t m =
     \<lparr>route = r, rtype = t, ie = None, fromAddr = 0, metric = m, tag = 0,
      changed = False, lastUpdateTime = 0\<rparr>"

datatype RIPTimer = updateTimer | triggeredUpdateTimer

text \<open>
  The state of \<^verbatim>\<open>class RIPRouting\<close> that route ageing and triggered updates use.
  \<open>scheduledTimers\<close> holds the timer messages of the module that are scheduled, each
  with its arrival time.
\<close>

record RIPRouting =
  ripRoutes :: "RIPRoute list"
  updateInterval :: simtime_t
  scheduledTimers :: "(simtime_t \<times> RIPTimer) list"

text \<open>\<^verbatim>\<open>timer->isScheduled()\<close>: the timer message is among the scheduled ones.\<close>

definition isScheduled :: "RIPTimer \<Rightarrow> RIPRouting \<Rightarrow> bool" where
  "isScheduled t rip = list_ex (\<lambda>e. snd e = t) (scheduledTimers rip)"

text \<open>
  Modelled from the spec: a delay drawn uniformly from \<open>[a, b]\<close>, as a function of the
  variate \<open>u\<close> that the random number generator delivers from the unit interval. The
  generator is not among the sources.
\<close>

definition uniform :: "real \<Rightarrow> real \<Rightarrow> real \<Rightarrow> real" where
  "uniform a b u = a + u * (b - a)"

text \<open>
  Modelled from the spec: \<^verbatim>\<open>RIPRouting::triggerUpdate\<close>, whose body is not among the
  sources, "schedules a triggered-update timer with a random delay drawn uniformly from
  [1s,5s]; idempotent -- a pending scheduled trigger is not rescheduled". \<open>now\<close> is the
  simulation time of the call and \<open>u\<close> the generator's variate.
\<close>

definition triggerUpdate :: "simtime_t \<Rightarrow> real \<Rightarrow> RIPRouting \<Rightarrow> RIPRouting" where
  "triggerUpdate now u rip =
     (if isScheduled triggeredUpdateTimer rip then rip
      else rip\<lparr>scheduledTimers :=
                 scheduledTimers rip @ [(now + uniform 1 5 u, triggeredUpdateTimer)]\<rparr>)"

text \<open>
  Modelled from the spec: the two ageing intervals, "\<^verbatim>\<open>routeExpiryTime\<close> (180s) and
  \<^verbatim>\<open>routePurgeTime\<close> (120s after expiry)". The class holds them in two fields; the code
  that sets the fields is not among the sources.
\<close>

definition routeExpiryTime :: simtime_t where
  "routeExpiryTime = 180"

definition routePurgeTime :: simtime_t where
  "routePurgeTime = 120"

text \<open>
  Modelled from the spec: the routes that do not age. \<^verbatim>\<open>configureInitialRoutes\<close>, whose
  body is not among the sources, "imports directly-connected, static, and default routes
  as zero-touch entries (no expiry)".
\<close>

definition noExpiry :: "RIPRoute \<Rightarrow> bool" where
  "noExpiry r =
     (rtype r = RIP_ROUTE_INTERFACE \<or> rtype r = RIP_ROUTE_STATIC \<or> rtype r = RIP_ROUTE_DEFAULT)"

text \<open>
  Modelled from the spec: the two deadlines of a route entry, "expiry (180s after last
  valid update) and purge (120s after expiry)". A route that does not age has none. The
  code that computes the deadlines is not among the sources.
\<close>

definition expiryTime :: "RIPRoute \<Rightarrow> simtime_t option" where
  "expiryTime r = (if noExpiry r then None else Some (lastUpdateTime r + routeExpiryTime))"

definition purgeTime :: "RIPRoute \<Rightarrow> simtime_t option" where
  "purgeTime r = (case expiryTime r of None \<Rightarrow> None | Some e \<Rightarrow> Some (e + routePurgeTime))"

text \<open>
  Modelled from the spec: an expired route "sets metric 16, marks changed"; the code
  that does so is not among the sources.
\<close>

definition invalidated :: "RIPRoute \<Rightarrow> RIPRoute" where
  "invalidated r = r\<lparr>metric := RIP_INFINITE_METRIC, changed := True\<rparr>"

text \<open>
  Modelled from the spec: \<^verbatim>\<open>RIPRouting::invalidateRoute\<close>, whose body is not among the
  sources: the expired route "sets metric 16, marks changed, triggers update" and stays
  in the table.
\<close>

definition invalidateRoute :: "simtime_t \<Rightarrow> real \<Rightarrow> RIPRouting \<Rightarrow> RIPRoute \<Rightarrow> RIPRouting" where
  "invalidateRoute now u rip r =
     triggerUpdate now u
       (rip\<lparr>ripRoutes := map (\<lambda>x. if route x = route r then invalidated x else x) (ripRoutes rip)\<rparr>)"

text \<open>
  Modelled from the spec: \<^verbatim>\<open>RIPRouting::purgeRoute\<close>, whose body is not among the
  sources: the route is "purged (removed)".
\<close>

definition purgeRoute :: "RIPRouting \<Rightarrow> RIPRoute \<Rightarrow> RIPRouting" where
  "purgeRoute rip r = rip\<lparr>ripRoutes := filter (\<lambda>x. route x \<noteq> route r) (ripRoutes rip)\<rparr>"

text \<open>
  Modelled from the spec: \<^verbatim>\<open>RIPRouting::checkRoute\<close>, whose body is not among the
  sources: it "transitions a route through valid -> expired (sets metric 16, marks
  changed, triggers update) -> purged (removed) based on elapsed time against
  \<^verbatim>\<open>routeExpiryTime\<close> (180s) and \<^verbatim>\<open>routePurgeTime\<close> (120s after expiry)"; the header
  says it "returns the route if it is valid". A route that does not age is always
  valid. The result is the route the caller gets (\<open>None\<close> is NULL) and the router
  afterwards.
\<close>

definition checkRoute ::
  "simtime_t \<Rightarrow> real \<Rightarrow> RIPRouting \<Rightarrow> RIPRoute \<Rightarrow> RIPRoute option \<times> RIPRouting" where
  "checkRoute now u rip r =
     (if noExpiry r then (Some r, rip)
      else if routeExpiryTime + routePurgeTime \<le> now - lastUpdateTime r
      then (None, purgeRoute rip r)
      else if routeExpiryTime \<le> now - lastUpdateTime r
      then (None, invalidateRoute now u rip r)
      else (Some r, rip))"

section \<open>Concrete inputs\<close>

text \<open>An environment with the lengths of the SCTP wire format and no NAT.\<close>

definition exampleEnv :: SCTPEnv where
  "exampleEnv =
     \<lparr>SCTP_COMMON_HEADER = 12, SCTP_ADD_IP_CHUNK_LENGTH = 8, SCTP_ADD_IP_PARAMETER_LENGTH = 8,
      SCTP_AUTH_CHUNK_LENGTH = 8, SHA_LENGTH = 20, AUTH = 15, natFriendly = False,
      getLevel = (\<lambda>_. 0), addAddress = IPv4 7, getNextAddressOfPath = (\<lambda>x. x)\<rparr>"

definition exampleState :: SCTPStateVariables where
  "exampleState =
     \<lparr>asconfOutstanding = False, asconfSn = 1, corrIdNum = 0, asconfChunk = None,
      localAddresses = [IPv4 1], auth = False, peerAuth = False,
      keyVector = [1, 0, 0, 0], sizeKeyVector = 4,
      peerKeyVector = [2, 0, 0, 0], sizePeerKeyVector = 4,
      sharedKey = [0, 0, 0, 0, 0, 0, 0, 0], peerChunkList = []\<rparr>"

text \<open>An association with no ASCONF outstanding.\<close>

definition idleAssociation :: SCTPAssociation where
  "idleAssociation =
     \<lparr>state = exampleState, localAddr = IPv4 1, remoteAddr = IPv4 2, localPort = 5000,
      remotePort = 6000, peerVTag = 9, remoteAddressList = [IPv4 2]\<rparr>"

text \<open>A retained ASCONF chunk with one add-address parameter.\<close>

definition exampleChunk :: SCTPAsconfChunk where
  "exampleChunk =
     \<lparr>chunkName = ''STATE-ASCONF'', chunkType = ASCONF, serialNumber = 1,
      addressParam = IPv4 1, chunkPeerVTag = 0, chunkBitLength = 256,
      asconfParams =
        [\<lparr>parameterName = ''AddIP'', parameterType = ADD_IP_ADDRESS, requestCorrelationId = 1,
          parameterAddressParam = IPv4 7, parameterBitLength = 128\<rparr>]\<rparr>"

text \<open>The same association while an ASCONF is outstanding.\<close>

definition busyAssociation :: SCTPAssociation where
  "busyAssociation =
     idleAssociation\<lparr>state := exampleState\<lparr>asconfOutstanding := True, corrIdNum := 1,
                                           asconfChunk := Some exampleChunk\<rparr>\<rparr>"

text \<open>The same association with the correlation counter two below its largest value.\<close>

definition lateAssociation :: SCTPAssociation where
  "lateAssociation = idleAssociation\<lparr>state := exampleState\<lparr>corrIdNum := 0xFFFFFFFE\<rparr>\<rparr>"

text \<open>
  Two endpoints of one association: each holds the other's key vector as its peer's.
  The vectors differ in byte 0 only.
\<close>

definition endpointA :: SCTPStateVariables where
  "endpointA = exampleState"

definition endpointB :: SCTPStateVariables where
  "endpointB = exampleState\<lparr>keyVector := [2, 0, 0, 0], peerKeyVector := [1, 0, 0, 0]\<rparr>"

text \<open>
  Key vectors of lengths 2 and 3; the peer's excess byte (index 2) is not zero, and
  neither is its byte 0.
\<close>

definition unequalKeys :: SCTPStateVariables where
  "unequalKeys =
     exampleState\<lparr>keyVector := [0, 1], sizeKeyVector := 2,
                   peerKeyVector := [1, 0, 1], sizePeerKeyVector := 3\<rparr>"

text \<open>
  Key vectors of length 2 in storage of 4 bytes; the peer's storage holds a stale byte
  beyond its length.
\<close>

definition staleKeys :: SCTPStateVariables where
  "staleKeys =
     exampleState\<lparr>keyVector := [0, 5, 0, 0], sizeKeyVector := 2,
                   peerKeyVector := [0, 2, 0, 7], sizePeerKeyVector := 2\<rparr>"

definition exampleRoute :: RIPRoute where
  "exampleRoute = (newRIPRoute 1 RIP_ROUTE_RTE 2)\<lparr>lastUpdateTime := 10\<rparr>"

text \<open>A route imported from a static entry of the routing table.\<close>

definition staticRoute :: RIPRoute where
  "staticRoute = newRIPRoute 2 RIP_ROUTE_STATIC 1"

text \<open>A router with the two routes and no timer scheduled.\<close>

definition exampleRouter :: RIPRouting where
  "exampleRouter =
     \<lparr>ripRoutes = [exampleRoute, staticRoute], updateInterval = 30, scheduledTimers = []\<rparr>"

section \<open>Properties\<close>

subsection \<open>Talkspurts\<close>

text \<open>
  Claim C10 (finishTalkspurt). For every talkspurt record, \<open>finishTalkspurt\<close> sets the
  status to \<open>FINISHED\<close> and empties the packets; the identifier, the packet count and
  the voice duration stay; afterwards \<open>isActive\<close> is false.
\<close>

theorem finishTalkspurt_frame:
  "status (finishTalkspurt t) = FINISHED
   \<and> packets (finishTalkspurt t) = []
   \<and> talkspurtID (finishTalkspurt t) = talkspurtID t
   \<and> talkspurtNumPackets (finishTalkspurt t) = talkspurtNumPackets t
   \<and> voiceDuration (finishTalkspurt t) = voiceDuration t
   \<and> isActive (finishTalkspurt t) = False"
  by (simp add: finishTalkspurt_def isActive_def)

subsection \<open>sendAsconf and retransmitAsconf\<close>

lemma asconfSwitch_unknown:
  "\<not> knownType t \<Longrightarrow> asconfSwitch env a natMode remote t v = v"
  by (simp add: asconfSwitch_def knownType_def)

lemma knownType_cases:
  "knownType t \<Longrightarrow> t = ADD_IP_ADDRESS \<or> t = DELETE_IP_ADDRESS \<or> t = SET_PRIMARY_ADDRESS"
  by (simp add: knownType_def)

lemma type_codes_distinct:
  "ADD_IP_ADDRESS \<noteq> DELETE_IP_ADDRESS" "ADD_IP_ADDRESS \<noteq> SET_PRIMARY_ADDRESS"
  "DELETE_IP_ADDRESS \<noteq> SET_PRIMARY_ADDRESS"
  by (simp_all add: ADD_IP_ADDRESS_def DELETE_IP_ADDRESS_def SET_PRIMARY_ADDRESS_def)

lemma asconfSwitch_known_types:
  "knownType t \<Longrightarrow>
   map parameterType (asconfParams (varChunk (asconfSwitch env a natMode remote t v)))
     = map parameterType (asconfParams (varChunk v)) @ [t]"
  using type_codes_distinct
  by (auto simp: asconfSwitch_def knownType_def caseAddIP_def caseDeleteIP_def
      caseSetPrimary_def Let_def)

lemma asconfSwitch_known_ids:
  "knownType t \<Longrightarrow>
   map requestCorrelationId (asconfParams (varChunk (asconfSwitch env a natMode remote t v)))
     = map requestCorrelationId (asconfParams (varChunk v)) @ [corrIdNum (varState v) + 1]"
  by (auto simp: asconfSwitch_def knownType_def caseAddIP_def caseDeleteIP_def
      caseSetPrimary_def Let_def)

lemma asconfSwitch_known_corrIdNum:
  "knownType t \<Longrightarrow>
   corrIdNum (varState (asconfSwitch env a natMode remote t v)) = corrIdNum (varState v) + 1"
  by (auto simp: asconfSwitch_def knownType_def caseAddIP_def caseDeleteIP_def
      caseSetPrimary_def Let_def)

lemma asconfSwitch_sends:
  "filter isSendToIP (events (asconfSwitch env a natMode remote t v)) = filter isSendToIP (events v)"
  by (simp add: asconfSwitch_def caseAddIP_def caseDeleteIP_def caseSetPrimary_def Let_def)

lemma asconfSwitch_chunk_frame:
  "chunkName (varChunk (asconfSwitch env a natMode remote t v)) = chunkName (varChunk v) \<and>
   chunkType (varChunk (asconfSwitch env a natMode remote t v)) = chunkType (varChunk v) \<and>
   serialNumber (varChunk (asconfSwitch env a natMode remote t v)) = serialNumber (varChunk v) \<and>
   addressParam (varChunk (asconfSwitch env a natMode remote t v)) = addressParam (varChunk v) \<and>
   chunkPeerVTag (varChunk (asconfSwitch env a natMode remote t v)) = chunkPeerVTag (varChunk v)"
  by (simp add: asconfSwitch_def caseAddIP_def caseDeleteIP_def caseSetPrimary_def Let_def)

lemma asconfTokens_fold:
  "asconfTokens env a natMode remote ts v
     = fold (asconfSwitch env a natMode remote) (filter knownType (map atoi ts)) v"
  by (induction ts arbitrary: v) (simp_all add: asconfSwitch_unknown)

lemma fold_known_types:
  "list_all knownType ks \<Longrightarrow>
   map parameterType (asconfParams (varChunk (fold (asconfSwitch env a natMode remote) ks v)))
     = map parameterType (asconfParams (varChunk v)) @ ks"
  by (induction ks arbitrary: v) (simp_all add: asconfSwitch_known_types)

lemma fold_known_corrIdNum:
  "list_all knownType ks \<Longrightarrow>
   corrIdNum (varState (fold (asconfSwitch env a natMode remote) ks v))
     = corrIdNum (varState v) + of_nat (length ks)"
  by (induction ks arbitrary: v) (simp_all add: asconfSwitch_known_corrIdNum)

lemma ids_unroll:
  fixes c :: uint32
  shows "(c + 1) # map (\<lambda>k. c + 1 + of_nat k) [Suc 0..<Suc n]
           = map (\<lambda>k. c + of_nat k) [Suc 0..<Suc (Suc n)]"
proof -
  have "[Suc 0..<Suc (Suc n)] = Suc 0 # [Suc (Suc 0)..<Suc (Suc n)]"
    by (rule upt_conv_Cons) simp
  also have "[Suc (Suc 0)..<Suc (Suc n)] = map Suc [Suc 0..<Suc n]"
    by (simp only: map_Suc_upt)
  finally have "map (\<lambda>k. c + of_nat k) [Suc 0..<Suc (Suc n)]
      = (c + of_nat (Suc 0)) # map (\<lambda>k. c + of_nat k) (map Suc [Suc 0..<Suc n])"
    by (simp only: list.map)
  also have "map (\<lambda>k. c + of_nat k) (map Suc [Suc 0..<Suc n])
      = map (\<lambda>k. c + 1 + of_nat k) [Suc 0..<Suc n]"
    by (simp add: o_def add.assoc del: upt_Suc)
  finally show ?thesis by simp
qed

lemma fold_known_ids:
  "list_all knownType ks \<Longrightarrow>
   map requestCorrelationId (asconfParams (varChunk (fold (asconfSwitch env a natMode remote) ks v)))
     = map requestCorrelationId (asconfParams (varChunk v))
       @ map (\<lambda>k. corrIdNum (varState v) + of_nat k) [Suc 0..<Suc (length ks)]"
proof (induction ks arbitrary: v)
  case Nil
  then show ?case by simp
next
  case (Cons t ks)
  from Cons.prems have t: "knownType t" and ks: "list_all knownType ks" by simp_all
  have "map requestCorrelationId
          (asconfParams (varChunk (fold (asconfSwitch env a natMode remote) (t # ks) v)))
        = map requestCorrelationId (asconfParams (varChunk v))
          @ ((corrIdNum (varState v) + 1)
             # map (\<lambda>k. corrIdNum (varState v) + 1 + of_nat k) [Suc 0..<Suc (length ks)])"
    using Cons.IH [OF ks, of "asconfSwitch env a natMode remote t v"]
    by (simp add: asconfSwitch_known_ids [OF t] asconfSwitch_known_corrIdNum [OF t] del: upt_Suc)
  then show ?case
    by (simp only: ids_unroll length_Cons)
qed

lemma fold_sends:
  "filter isSendToIP (events (fold (asconfSwitch env a natMode remote) ks v))
     = filter isSendToIP (events v)"
  by (induction ks arbitrary: v) (simp_all add: asconfSwitch_sends)

lemma fold_chunk_frame:
  "serialNumber (varChunk (fold (asconfSwitch env a natMode remote) ks v)) = serialNumber (varChunk v)"
  using asconfSwitch_chunk_frame
  by (induction ks arbitrary: v) simp_all

lemma asconfTokens_sends:
  "filter isSendToIP (events (asconfTokens env a natMode remote ts v)) = filter isSendToIP (events v)"
  by (simp add: asconfTokens_fold fold_sends)

lemma list_all_filter_known: "list_all knownType (filter knownType xs)"
  by (simp add: list_all_iff)

lemma asconfTokens_types:
  "map parameterType (asconfParams (varChunk (asconfTokens env a natMode remote ts v)))
     = map parameterType (asconfParams (varChunk v)) @ filter knownType (map atoi ts)"
  by (simp add: asconfTokens_fold fold_known_types list_all_filter_known)

lemma asconfTokens_ids:
  "map requestCorrelationId (asconfParams (varChunk (asconfTokens env a natMode remote ts v)))
     = map requestCorrelationId (asconfParams (varChunk v))
       @ map (\<lambda>k. corrIdNum (varState v) + of_nat k)
           [Suc 0..<Suc (length (filter knownType (map atoi ts)))]"
  by (simp only: asconfTokens_fold fold_known_ids [OF list_all_filter_known])

lemma asconfTokens_corrIdNum:
  "corrIdNum (varState (asconfTokens env a natMode remote ts v))
     = corrIdNum (varState v) + of_nat (length (filter knownType (map atoi ts)))"
  by (simp only: asconfTokens_fold fold_known_corrIdNum [OF list_all_filter_known])

lemma asconfTokens_serialNumber:
  "serialNumber (varChunk (asconfTokens env a natMode remote ts v)) = serialNumber (varChunk v)"
  by (simp add: asconfTokens_fold fold_chunk_frame)

lemma asconfEnd_sends:
  "filter isSendToIP (events v) = [] \<Longrightarrow>
   filter isSendToIP (snd (asconfEnd env a v))
     = [SendToIP
          \<lparr>msgName = ''ASCONF-MSG'', msgBitLength = SCTP_COMMON_HEADER env * 8,
           srcPort = localPort a, destPort = remotePort a,
           chunks = (if auth (varState v) \<and> peerAuth (varState v)
                     then [AuthenticationChunk (createAuthChunk env)] else [])
                    @ [AsconfChunk ((varChunk v)\<lparr>chunkBitLength := uint (chunkLength v) * 8\<rparr>)]\<rparr>
          (Some (targetAddr v))]"
  by (simp add: asconfEnd_def Let_def)

lemma asconfEnd_state:
  "state (fst (asconfEnd env a v))
     = (varState v)\<lparr>asconfChunk :=
                       Some ((varChunk v)\<lparr>chunkBitLength := uint (chunkLength v) * 8,
                                          chunkName := ''STATE-ASCONF''\<rparr>),
                     asconfOutstanding := True\<rparr>"
  by (simp add: asconfEnd_def Let_def)

lemma asconfBegin_fields:
  "events (asconfBegin env a) = []"
  "varState (asconfBegin env a) = state a"
  "asconfParams (varChunk (asconfBegin env a)) = []"
  "serialNumber (varChunk (asconfBegin env a)) = asconfSn (state a)"
  by (simp_all add: asconfBegin_def Let_def)

lemma sendAsconf_idle:
  "\<not> asconfOutstanding (state a) \<Longrightarrow>
   sendAsconf env t r a
     = asconfEnd env a (asconfTokens env a (isNatMode env a) r (strtokAll [] t) (asconfBegin env a))"
  by (simp add: sendAsconf_def)

lemma sendAsconf_busy:
  "asconfOutstanding (state a) \<Longrightarrow> sendAsconf env t r a = (a, [])"
  by (simp add: sendAsconf_def)

lemma asconfChunksOf_built:
  "asconfChunksOf ((if b then [AuthenticationChunk x] else []) @ [AsconfChunk c]) = [c]"
  by simp

text \<open>
  Claim C2 (ASCONF mutual exclusion). While \<^verbatim>\<open>asconfOutstanding\<close> is true a call of
  \<open>sendAsconf\<close> returns the association as it was and makes no outside call: nothing
  is sent, no chunk is built, \<^verbatim>\<open>corrIdNum\<close>, the local addresses and the retained chunk
  stay. While it is false the call hands exactly one message to \<^verbatim>\<open>sendToIP\<close>, that
  message holds exactly one ASCONF chunk, the association retains a copy of that chunk
  and \<^verbatim>\<open>asconfOutstanding\<close> is true afterwards.
\<close>

theorem sendAsconf_mutual_exclusion:
  "(asconfOutstanding (state a) \<longrightarrow> sendAsconf env t r a = (a, [])) \<and>
   (\<not> asconfOutstanding (state a) \<longrightarrow>
      (\<exists>msg c tgt.
          filter isSendToIP (snd (sendAsconf env t r a)) = [SendToIP msg (Some tgt)]
          \<and> asconfChunksOf (chunks msg) = [c]
          \<and> asconfChunk (state (fst (sendAsconf env t r a)))
              = Some (c\<lparr>chunkName := ''STATE-ASCONF''\<rparr>))
      \<and> asconfOutstanding (state (fst (sendAsconf env t r a))))"
proof (intro conjI impI)
  assume "asconfOutstanding (state a)"
  then show "sendAsconf env t r a = (a, [])" by (rule sendAsconf_busy)
next
  assume idle: "\<not> asconfOutstanding (state a)"
  define v where "v = asconfTokens env a (isNatMode env a) r (strtokAll [] t) (asconfBegin env a)"
  have res: "sendAsconf env t r a = asconfEnd env a v"
    unfolding v_def using idle by (rule sendAsconf_idle)
  have quiet: "filter isSendToIP (events v) = []"
    unfolding v_def by (simp add: asconfTokens_sends asconfBegin_fields)
  show "\<exists>msg c tgt.
          filter isSendToIP (snd (sendAsconf env t r a)) = [SendToIP msg (Some tgt)]
          \<and> asconfChunksOf (chunks msg) = [c]
          \<and> asconfChunk (state (fst (sendAsconf env t r a)))
              = Some (c\<lparr>chunkName := ''STATE-ASCONF''\<rparr>)"
    unfolding res asconfEnd_sends [OF quiet] asconfEnd_state
    by (intro exI conjI, rule refl) simp_all
  show "asconfOutstanding (state (fst (sendAsconf env t r a)))"
    unfolding res asconfEnd_state by simp
qed

lemma asconfEnd_message:
  "filter isSendToIP (events v) = [] \<Longrightarrow>
   \<exists>msg. filter isSendToIP (snd (asconfEnd env a v)) = [SendToIP msg (Some (targetAddr v))]
     \<and> asconfChunksOf (chunks msg) = [(varChunk v)\<lparr>chunkBitLength := uint (chunkLength v) * 8\<rparr>]"
  by (simp add: asconfEnd_def Let_def)

lemma asconfTokens_knownTokens:
  "asconfTokens env a natMode remote (strtokAll [] t) v
     = fold (asconfSwitch env a natMode remote) (knownTokens t) v"
  by (simp add: asconfTokens_fold knownTokens_def)

lemma sendAsconf_knownTokens:
  "knownTokens t = knownTokens t' \<Longrightarrow> sendAsconf env t r a = sendAsconf env t' r a"
  by (simp add: sendAsconf_def asconfTokens_knownTokens)

text \<open>
  Claim C8 (unknown change types). A token whose value is none of
  \<open>ADD_IP_ADDRESS\<close>, \<open>DELETE_IP_ADDRESS\<close>, \<open>SET_PRIMARY_ADDRESS\<close> leaves every variable
  of the loop as it was; so two type strings with the same recognised tokens give the
  same result. The call has no error result. With no ASCONF outstanding the chunk is
  still built and sent: exactly one message with exactly one ASCONF chunk, whose
  parameters are those of the recognised tokens, in order (none when no token is
  recognised), and \<^verbatim>\<open>asconfOutstanding\<close> is true afterwards.
\<close>

theorem sendAsconf_skips_unknown_types:
  "(\<not> knownType tokenValue \<longrightarrow> asconfSwitch env a natMode r tokenValue v = v) \<and>
   (knownTokens t = knownTokens t' \<longrightarrow> sendAsconf env t r a = sendAsconf env t' r a) \<and>
   (\<not> asconfOutstanding (state a) \<longrightarrow>
      (\<exists>msg c tgt.
          filter isSendToIP (snd (sendAsconf env t r a)) = [SendToIP msg (Some tgt)]
          \<and> asconfChunksOf (chunks msg) = [c]
          \<and> map parameterType (asconfParams c) = knownTokens t)
      \<and> asconfOutstanding (state (fst (sendAsconf env t r a))))"
proof (intro conjI impI)
  assume "\<not> knownType tokenValue"
  then show "asconfSwitch env a natMode r tokenValue v = v" by (rule asconfSwitch_unknown)
next
  assume "knownTokens t = knownTokens t'"
  then show "sendAsconf env t r a = sendAsconf env t' r a" by (rule sendAsconf_knownTokens)
next
  assume idle: "\<not> asconfOutstanding (state a)"
  define w where "w = asconfTokens env a (isNatMode env a) r (strtokAll [] t) (asconfBegin env a)"
  have res: "sendAsconf env t r a = asconfEnd env a w"
    unfolding w_def using idle by (rule sendAsconf_idle)
  have quiet: "filter isSendToIP (events w) = []"
    unfolding w_def by (simp add: asconfTokens_sends asconfBegin_fields)
  have types: "map parameterType (asconfParams (varChunk w)) = knownTokens t"
    unfolding w_def by (simp add: asconfTokens_types asconfBegin_fields knownTokens_def)
  show "\<exists>msg c tgt.
          filter isSendToIP (snd (sendAsconf env t r a)) = [SendToIP msg (Some tgt)]
          \<and> asconfChunksOf (chunks msg) = [c]
          \<and> map parameterType (asconfParams c) = knownTokens t"
    using asconfEnd_message [OF quiet, of env a] types unfolding res by auto
  show "asconfOutstanding (state (fst (sendAsconf env t r a)))"
    unfolding res asconfEnd_state by simp
qed

text \<open>
  Claim C7 (retransmission). With a retained chunk, \<open>retransmitAsconf\<close> hands one
  message to \<^verbatim>\<open>sendToIP\<close>; its one ASCONF chunk has the serial number, the parameter
  list and the correlation identifiers of the retained chunk. The association is
  returned as it was: the retained chunk, \<^verbatim>\<open>asconfOutstanding\<close>, \<^verbatim>\<open>corrIdNum\<close> and
  \<^verbatim>\<open>asconfSn\<close> are unchanged.
\<close>

theorem retransmitAsconf_resends_retained:
  "asconfChunk (state a) = Some c \<Longrightarrow>
   (\<exists>msg rc. retransmitAsconf env a = Some (a, [SendToIP msg None])
       \<and> asconfChunksOf (chunks msg) = [rc]
       \<and> serialNumber rc = serialNumber c
       \<and> asconfParams rc = asconfParams c
       \<and> correlationIds rc = correlationIds c)"
  by (simp add: retransmitAsconf_def Let_def correlationIds_def)

lemma unat_add_small:
  fixes c :: uint32
  assumes "unat c + k < 2 ^ 32"
  shows "unat (c + of_nat k) = unat c + k"
proof -
  have "k < 2 ^ 32" using assms by simp
  then have "unat (of_nat k :: uint32) = k" by (simp add: unat_of_nat take_bit_nat_eq_self)
  then show ?thesis using assms by (simp add: unat_word_ariths)
qed

lemma ids_increasing:
  fixes c :: uint32
  assumes "unat c + n < 2 ^ 32"
  shows "sorted_wrt (<) (map (\<lambda>k. c + of_nat k) [Suc 0..<Suc n])"
proof -
  have step: "c + of_nat i < c + of_nat j"
    if "i \<in> set [Suc 0..<Suc n]" "j \<in> set [Suc 0..<Suc n]" "i < j" for i j
  proof -
    from that have "i \<le> n" "j \<le> n" by auto
    with assms have small: "unat c + i < 2 ^ 32" "unat c + j < 2 ^ 32" by simp_all
    have "unat (c + of_nat i) = unat c + i" "unat (c + of_nat j) = unat c + j"
      by (rule unat_add_small [OF small(1)], rule unat_add_small [OF small(2)])
    then show ?thesis using that(3) by (simp add: word_less_nat_alt)
  qed
  have "sorted_wrt (\<lambda>i j. c + of_nat i < c + of_nat j) [Suc 0..<Suc n]"
    by (rule sorted_wrt_mono_rel [where P = "(<)"]) (simp_all only: step sorted_wrt_upt)
  then show ?thesis by (simp only: sorted_wrt_map)
qed

lemma ids_above:
  fixes c :: uint32
  assumes "unat c + n < 2 ^ 32"
  shows "\<forall>x \<in> set (map (\<lambda>k. c + of_nat k) [Suc 0..<Suc n]). c < x"
proof
  fix x assume "x \<in> set (map (\<lambda>k. c + of_nat k) [Suc 0..<Suc n])"
  then obtain k where k: "x = c + of_nat k" "0 < k" "k \<le> n" by auto
  with assms have "unat c + k < 2 ^ 32" by simp
  then have "unat (c + of_nat k) = unat c + k" by (rule unat_add_small)
  then show "c < x" using k by (simp add: word_less_nat_alt)
qed

text \<open>
  Claim C4 (correlation identifiers), as amended. The correlation identifier is a
  \<^verbatim>\<open>uint32\<close> and the counter wraps. A call of \<open>sendAsconf\<close> with no ASCONF
  outstanding tags the \<open>k\<close>-th parameter it builds with \<^verbatim>\<open>corrIdNum\<close> \<open>+ k\<close> modulo
  \<open>2^32\<close> and leaves the counter advanced by the number of parameters built. As long
  as the counter does not pass \<open>2^32 - 1\<close> during the call, the identifiers are
  strictly increasing, pairwise distinct, and each larger than the counter was before.
\<close>

theorem sendAsconf_correlation_ids:
  "\<not> asconfOutstanding (state a) \<Longrightarrow>
   (\<exists>msg c tgt.
       filter isSendToIP (snd (sendAsconf env t r a)) = [SendToIP msg (Some tgt)]
       \<and> asconfChunksOf (chunks msg) = [c]
       \<and> asconfChunk (state (fst (sendAsconf env t r a))) = Some (c\<lparr>chunkName := ''STATE-ASCONF''\<rparr>)
       \<and> correlationIds c
           = map (\<lambda>k. corrIdNum (state a) + of_nat k) [1..<Suc (length (knownTokens t))]
       \<and> (unat (corrIdNum (state a)) + length (knownTokens t) < 2 ^ 32 \<longrightarrow>
            sorted_wrt (<) (correlationIds c) \<and> distinct (correlationIds c)
            \<and> (\<forall>x \<in> set (correlationIds c). corrIdNum (state a) < x)))
   \<and> corrIdNum (state (fst (sendAsconf env t r a)))
        = corrIdNum (state a) + of_nat (length (knownTokens t))"
proof (intro conjI)
  assume idle: "\<not> asconfOutstanding (state a)"
  define w where "w = asconfTokens env a (isNatMode env a) r (strtokAll [] t) (asconfBegin env a)"
  define n where "n = length (knownTokens t)"
  define ids where "ids = map (\<lambda>k. corrIdNum (state a) + of_nat k) [Suc 0..<Suc n]"
  have res: "sendAsconf env t r a = asconfEnd env a w"
    unfolding w_def using idle by (rule sendAsconf_idle)
  have quiet: "filter isSendToIP (events w) = []"
    unfolding w_def by (simp add: asconfTokens_sends asconfBegin_fields)
  have w_ids: "map requestCorrelationId (asconfParams (varChunk w)) = ids"
    unfolding w_def ids_def n_def
    by (simp add: asconfTokens_ids asconfBegin_fields knownTokens_def del: upt_Suc)
  have w_num: "corrIdNum (varState w) = corrIdNum (state a) + of_nat n"
    unfolding w_def n_def by (simp add: asconfTokens_corrIdNum asconfBegin_fields knownTokens_def)
  have order: "unat (corrIdNum (state a)) + n < 2 ^ 32 \<longrightarrow>
      sorted_wrt (<) ids \<and> distinct ids \<and> (\<forall>x \<in> set ids. corrIdNum (state a) < x)"
  proof
    assume small: "unat (corrIdNum (state a)) + n < 2 ^ 32"
    have s: "sorted_wrt (<) ids" unfolding ids_def using small by (rule ids_increasing)
    then have "distinct ids" by (simp add: strict_sorted_iff)
    moreover have "\<forall>x \<in> set ids. corrIdNum (state a) < x"
      unfolding ids_def using small by (rule ids_above)
    ultimately show "sorted_wrt (<) ids \<and> distinct ids \<and> (\<forall>x \<in> set ids. corrIdNum (state a) < x)"
      using s by simp
  qed
  show "\<exists>msg c tgt.
       filter isSendToIP (snd (sendAsconf env t r a)) = [SendToIP msg (Some tgt)]
       \<and> asconfChunksOf (chunks msg) = [c]
       \<and> asconfChunk (state (fst (sendAsconf env t r a))) = Some (c\<lparr>chunkName := ''STATE-ASCONF''\<rparr>)
       \<and> correlationIds c
           = map (\<lambda>k. corrIdNum (state a) + of_nat k) [1..<Suc (length (knownTokens t))]
       \<and> (unat (corrIdNum (state a)) + length (knownTokens t) < 2 ^ 32 \<longrightarrow>
            sorted_wrt (<) (correlationIds c) \<and> distinct (correlationIds c)
            \<and> (\<forall>x \<in> set (correlationIds c). corrIdNum (state a) < x))"
  proof -
    from asconfEnd_message [OF quiet, of env a] obtain msg where
      msg: "filter isSendToIP (snd (asconfEnd env a w)) = [SendToIP msg (Some (targetAddr w))]"
           "asconfChunksOf (chunks msg) = [(varChunk w)\<lparr>chunkBitLength := uint (chunkLength w) * 8\<rparr>]"
      by blast
    let ?c = "(varChunk w)\<lparr>chunkBitLength := uint (chunkLength w) * 8\<rparr>"
    have c_ids: "correlationIds ?c = ids" by (simp add: correlationIds_def w_ids)
    have kept: "asconfChunk (state (fst (asconfEnd env a w))) = Some (?c\<lparr>chunkName := ''STATE-ASCONF''\<rparr>)"
      by (simp add: asconfEnd_state)
    have ids1: "ids = map (\<lambda>k. corrIdNum (state a) + of_nat k) [1..<Suc (length (knownTokens t))]"
      by (simp only: ids_def n_def One_nat_def)
    show ?thesis
      unfolding res
      apply (rule exI [of _ msg], rule exI [of _ ?c], rule exI [of _ "targetAddr w"])
      using msg kept order ids1 unfolding c_ids n_def by simp
  qed
  show "corrIdNum (state (fst (sendAsconf env t r a)))
        = corrIdNum (state a) + of_nat (length (knownTokens t))"
    unfolding res asconfEnd_state by (simp add: w_num n_def)
qed

lemmas example_defs = exampleEnv_def exampleState_def idleAssociation_def

lemmas token_defs = knownTokens_def knownType_def atoi_def strtol_def toInt32_def isspace_def
  isdigit_def
  ADD_IP_ADDRESS_def DELETE_IP_ADDRESS_def SET_PRIMARY_ADDRESS_def

text \<open>
  A token whose digits stand for a number outside \<^verbatim>\<open>int\<close> counts with the value the
  \<^verbatim>\<open>switch\<close> sees: \<open>4295016449\<close> is \<open>2^32 + 49153\<close> and selects the add-address case.
\<close>

lemma atoi_outside_int:
  "atoi ''4295016449'' = ADD_IP_ADDRESS \<and> knownTokens ''4295016449'' = [ADD_IP_ADDRESS]"
  by (simp add: token_defs)

text \<open>The two cases of C2 at the busy and at the idle association.\<close>

theorem sendAsconf_mutual_exclusion_witness:
  "asconfOutstanding (state busyAssociation)
   \<and> sendAsconf exampleEnv ''49153'' False busyAssociation = (busyAssociation, [])
   \<and> \<not> asconfOutstanding (state idleAssociation)
   \<and> asconfOutstanding (state (fst (sendAsconf exampleEnv ''49153'' False idleAssociation)))"
  using sendAsconf_mutual_exclusion [where a = busyAssociation and env = exampleEnv
      and t = "''49153''" and r = False]
    sendAsconf_mutual_exclusion [where a = idleAssociation and env = exampleEnv
      and t = "''49153''" and r = False]
  by (simp add: example_defs busyAssociation_def)

text \<open>C8 at the type string \<open>5,49153,x\<close>: only its second token is recognised.\<close>

theorem sendAsconf_skips_unknown_types_witness:
  "\<not> knownType 5
   \<and> asconfSwitch exampleEnv idleAssociation False False 5 (asconfBegin exampleEnv idleAssociation)
       = asconfBegin exampleEnv idleAssociation
   \<and> knownTokens ''5,49153,x'' = knownTokens ''49153''
   \<and> sendAsconf exampleEnv ''5,49153,x'' False idleAssociation
       = sendAsconf exampleEnv ''49153'' False idleAssociation
   \<and> \<not> asconfOutstanding (state idleAssociation)
   \<and> asconfOutstanding (state (fst (sendAsconf exampleEnv ''5,49153,x'' False idleAssociation)))"
proof -
  have unknown: "\<not> knownType 5" by (simp add: token_defs)
  have same: "knownTokens ''5,49153,x'' = knownTokens ''49153''" by (simp add: token_defs)
  have idle: "\<not> asconfOutstanding (state idleAssociation)" by (simp add: example_defs)
  from unknown same idle
    sendAsconf_skips_unknown_types [where tokenValue = 5 and env = exampleEnv
      and a = idleAssociation and natMode = False and r = False
      and v = "asconfBegin exampleEnv idleAssociation"
      and t = "''5,49153,x''" and t' = "''49153''"]
  show ?thesis by blast
qed

text \<open>C7 at the busy association, which retains a chunk.\<close>

theorem retransmitAsconf_resends_retained_witness:
  "asconfChunk (state busyAssociation) = Some exampleChunk
   \<and> map_option fst (retransmitAsconf exampleEnv busyAssociation) = Some busyAssociation"
  using retransmitAsconf_resends_retained [where a = busyAssociation and c = exampleChunk
      and env = exampleEnv]
  by (auto simp add: busyAssociation_def)

text \<open>C4 as amended, at the idle association and two recognised tokens.\<close>

theorem sendAsconf_correlation_ids_witness:
  "\<not> asconfOutstanding (state idleAssociation)
   \<and> unat (corrIdNum (state idleAssociation)) + length (knownTokens ''49153,49154'') < 2 ^ 32
   \<and> corrIdNum (state (fst (sendAsconf exampleEnv ''49153,49154'' False idleAssociation))) = 2"
  using sendAsconf_correlation_ids [where a = idleAssociation and env = exampleEnv
      and t = "''49153,49154''" and r = False]
  by (simp add: token_defs example_defs)

lemma lateAssociation_run:
  "retainedCorrelationIds (fst (sendAsconf exampleEnv ''49153,49154'' False lateAssociation))
     = [0xFFFFFFFF, 0]"
  by (simp add: retainedCorrelationIds_def correlationIds_def sendAsconf_def asconfEnd_def
      asconfBegin_def isNatMode_def asconfSwitch_def caseAddIP_def caseDeleteIP_def
      caseSetPrimary_def Let_def token_defs example_defs lateAssociation_def)

text \<open>
  C4 as stated fails where the counter wraps: from \<^verbatim>\<open>corrIdNum\<close> \<open>= 2^32 - 2\<close> the two
  parameters of one call carry \<open>2^32 - 1\<close> and then \<open>0\<close>.
\<close>

theorem correlation_ids_wrap_counterexample:
  "\<not> asconfOutstanding (state lateAssociation)
   \<and> retainedCorrelationIds (fst (sendAsconf exampleEnv ''49153,49154'' False lateAssociation))
       = [0xFFFFFFFF, 0]
   \<and> \<not> sorted_wrt (<)
         (retainedCorrelationIds (fst (sendAsconf exampleEnv ''49153,49154'' False lateAssociation)))"
  unfolding lateAssociation_run by (simp add: example_defs lateAssociation_def)

subsection \<open>compareRandom and calculateAssocSharedKey\<close>

lemma scanExcess_byte0:
  "scanExcess (v[0 := x]) lo n = scanExcess v lo n"
  by (induction n) simp_all

lemma compareLoop_byte0:
  "compareLoop (key[0 := x]) (peer[0 := y]) n = compareLoop key peer n"
  by (induction n) simp_all

lemma compareRandom_byte0:
  "compareRandom sizeofKey sizeofPeer sizeLocal
     (st\<lparr>keyVector := (keyVector st)[0 := x], peerKeyVector := (peerKeyVector st)[0 := y]\<rparr>)
   = compareRandom sizeofKey sizeofPeer sizeLocal st"
  by (simp add: compareRandom_def compareLoop_byte0 scanExcess_byte0 split: sum.splits)

lemma compareLoop_agree_not_false:
  assumes "length key = length peer"
    and "\<forall>i. 1 \<le> i \<and> i < length key \<longrightarrow> key ! i = peer ! i"
  shows "compareLoop key peer n \<noteq> Inr False"
  using assms by (induction n) auto

lemma compareLoop_agree_true:
  assumes "length key = length peer"
    and "\<forall>i. 1 \<le> i \<and> i < length key \<longrightarrow> key ! i = peer ! i"
    and "n < length key \<or> n = 0"
  shows "compareLoop key peer n = Inr True"
  using assms by (induction n) auto

lemma compareLoop_out_of_bounds:
  "length key \<le> n \<Longrightarrow> 0 < n \<Longrightarrow> compareLoop key peer n = Inl OutOfBounds"
  by (cases n) simp_all

text \<open>
  When the two \<^verbatim>\<open>sizeof\<close> are equal the result is that of the last loop, started from
  what the unassigned local holds.
\<close>

lemma compareRandom_equal_sizes:
  "compareRandom n n sizeLocal st
     = compareLoop (keyVector st) (peerKeyVector st) (nat (toInt32 (sizeLocal - 1)))"
  by (simp add: compareRandom_def)

text \<open>
  Vectors of the same size that agree at every index from 1 upward: the comparison
  never answers false, and it answers true when the last loop starts inside the storage.
\<close>

lemma compareRandom_tie:
  assumes "length (keyVector st) = length (peerKeyVector st)"
    and "\<forall>i. 1 \<le> i \<and> i < length (keyVector st) \<longrightarrow> keyVector st ! i = peerKeyVector st ! i"
  shows "compareRandom n n sizeLocal st \<noteq> Inr False"
    and "nat (toInt32 (sizeLocal - 1)) < length (keyVector st) \<Longrightarrow>
         compareRandom n n sizeLocal st = Inr True"
proof -
  show "compareRandom n n sizeLocal st \<noteq> Inr False"
    unfolding compareRandom_equal_sizes using assms by (rule compareLoop_agree_not_false)
  assume "nat (toInt32 (sizeLocal - 1)) < length (keyVector st)"
  then have "nat (toInt32 (sizeLocal - 1)) < length (keyVector st)
      \<or> nat (toInt32 (sizeLocal - 1)) = 0" by simp
  with assms show "compareRandom n n sizeLocal st = Inr True"
    unfolding compareRandom_equal_sizes by (rule compareLoop_agree_true)
qed

text \<open>The length fields have no part in the comparison.\<close>

lemma compareRandom_ignores_lengths:
  "compareRandom sizeofKey sizeofPeer sizeLocal (st\<lparr>sizeKeyVector := m, sizePeerKeyVector := n\<rparr>)
     = compareRandom sizeofKey sizeofPeer sizeLocal st"
  by (simp add: compareRandom_def split: sum.splits)

lemma copy4_front:
  "copyBytes [a, b, c, d] 0 [0..<4] [k0, k1, k2, k3, k4, k5, k6, k7]
     = Inr [a, b, c, d, k4, k5, k6, k7]"
  by (simp add: upt_conv_Cons)

lemma copy4_back:
  "copyBytes [a, b, c, d] 4 [0..<4] [k0, k1, k2, k3, k4, k5, k6, k7]
     = Inr [k0, k1, k2, k3, a, b, c, d]"
  by (simp add: upt_conv_Cons)

lemma endpointA_compare: "compareRandom n n 4 endpointA = Inr True"
  unfolding compareRandom_equal_sizes endpointA_def exampleState_def by code_simp

lemma endpointB_compare: "compareRandom n n 4 endpointB = Inr True"
  unfolding compareRandom_equal_sizes endpointB_def exampleState_def by code_simp

lemma sharedKey_peerFirst:
  assumes "compareRandom n m s st = Inr True"
    and "keyVector st = [a, b, c, d]" and "peerKeyVector st = [a', b', c', d']"
    and "sizeKeyVector st = 4" and "sizePeerKeyVector st = 4"
    and "sharedKey st = [k0, k1, k2, k3, k4, k5, k6, k7]"
  shows "sharedKeyOf (calculateAssocSharedKey n m s st) = Inr [a, b, c, d, a', b', c', d']"
  using assms by (simp add: sharedKeyOf_def calculateAssocSharedKey_def copy4_front copy4_back)

text \<open>
  Claim C1 (shared-key symmetry) fails on the code. The key vectors \<open>[1,0,0,0]\<close> and
  \<open>[2,0,0,0]\<close> differ in byte 0 only, which \<open>compareRandom\<close> never compares: it answers
  true at both endpoints, each endpoint puts its own vector first, and the two shared
  keys differ. Here \<open>n\<close> is the common value of the two \<^verbatim>\<open>sizeof\<close>, and the unassigned
  local holds 4, the number of bytes of a vector.
\<close>

theorem calculateAssocSharedKey_endpoints_differ:
  "sharedKeyOf (calculateAssocSharedKey n n 4 endpointA) = Inr [1, 0, 0, 0, 2, 0, 0, 0]
   \<and> sharedKeyOf (calculateAssocSharedKey n n 4 endpointB) = Inr [2, 0, 0, 0, 1, 0, 0, 0]"
proof
  show "sharedKeyOf (calculateAssocSharedKey n n 4 endpointA) = Inr [1, 0, 0, 0, 2, 0, 0, 0]"
    by (rule sharedKey_peerFirst [OF endpointA_compare])
      (simp_all add: endpointA_def exampleState_def)
  show "sharedKeyOf (calculateAssocSharedKey n n 4 endpointB) = Inr [2, 0, 0, 0, 1, 0, 0, 0]"
    by (rule sharedKey_peerFirst [OF endpointB_compare])
      (simp_all add: endpointB_def exampleState_def)
qed

lemma sharedKeyOf_Inr:
  "sharedKeyOf (calculateAssocSharedKey n m s st) = Inr k \<Longrightarrow>
   \<exists>b. compareRandom n m s st = Inr b"
  by (cases "compareRandom n m s st") (simp_all add: sharedKeyOf_def calculateAssocSharedKey_def)

lemma endpoints_agree_above_byte0:
  "length (keyVector endpointA) = length (peerKeyVector endpointA)"
  "\<forall>i. 1 \<le> i \<and> i < length (keyVector endpointA)
       \<longrightarrow> keyVector endpointA ! i = peerKeyVector endpointA ! i"
  "length (keyVector endpointB) = length (peerKeyVector endpointB)"
  "\<forall>i. 1 \<le> i \<and> i < length (keyVector endpointB)
       \<longrightarrow> keyVector endpointB ! i = peerKeyVector endpointB ! i"
  by (simp_all add: endpointA_def endpointB_def exampleState_def nth_Cons split: nat.split)

text \<open>
  The same holds whatever the two \<^verbatim>\<open>sizeof\<close> yield in common and whatever the unassigned
  local \<^verbatim>\<open>size\<close> holds: the two endpoints never end with the same shared key.
\<close>

lemma endpoints_never_agree:
  assumes "sharedKeyOf (calculateAssocSharedKey n n s endpointA) = Inr k"
  shows "sharedKeyOf (calculateAssocSharedKey n n s endpointB) \<noteq> Inr k"
proof
  assume other: "sharedKeyOf (calculateAssocSharedKey n n s endpointB) = Inr k"
  have nfA: "compareRandom n n s endpointA \<noteq> Inr False"
    unfolding compareRandom_equal_sizes
    by (rule compareLoop_agree_not_false) (rule endpoints_agree_above_byte0)+
  have nfB: "compareRandom n n s endpointB \<noteq> Inr False"
    unfolding compareRandom_equal_sizes
    by (rule compareLoop_agree_not_false) (rule endpoints_agree_above_byte0)+
  from sharedKeyOf_Inr [OF assms] nfA have tA: "compareRandom n n s endpointA = Inr True"
    by (metis (full_types))
  from sharedKeyOf_Inr [OF other] nfB have tB: "compareRandom n n s endpointB = Inr True"
    by (metis (full_types))
  have "sharedKeyOf (calculateAssocSharedKey n n s endpointA) = Inr [1, 0, 0, 0, 2, 0, 0, 0]"
    by (rule sharedKey_peerFirst [OF tA]) (simp_all add: endpointA_def exampleState_def)
  moreover
  have "sharedKeyOf (calculateAssocSharedKey n n s endpointB) = Inr [2, 0, 0, 0, 1, 0, 0, 0]"
    by (rule sharedKey_peerFirst [OF tB]) (simp_all add: endpointB_def exampleState_def)
  ultimately show False using assms other by simp
qed

text \<open>
  Claim C9 (byte 0 is never compared; a tie from index 1 upward gives true) fails on
  the code in its second half. The result never depends on byte 0 (lemma
  \<open>compareRandom_byte0\<close>), and for vectors that agree from index 1 upward it is never
  false (lemma \<open>compareRandom_tie\<close>). But with equal \<^verbatim>\<open>sizeof\<close> the local \<^verbatim>\<open>size\<close> is
  read unassigned: the vectors of endpoint A agree from index 1 upward, and where
  \<^verbatim>\<open>size\<close> holds 5, or the least \<^verbatim>\<open>int32\<close>, the last loop starts beyond the four bytes of
  the storage and reads out of bounds instead of answering true. Where it holds 4 the
  answer is true.
\<close>

theorem compareRandom_tie_out_of_bounds:
  "compareRandom n n 5 endpointA = Inl OutOfBounds
   \<and> compareRandom n n (- 2147483648) endpointA = Inl OutOfBounds
   \<and> compareRandom n n 4 endpointA = Inr True
   \<and> drop 1 (keyVector endpointA) = drop 1 (peerKeyVector endpointA)"
proof (intro conjI)
  have len: "length (keyVector endpointA) = 4"
    by (simp add: endpointA_def exampleState_def)
  show "compareRandom n n 5 endpointA = Inl OutOfBounds"
    unfolding compareRandom_equal_sizes
    by (rule compareLoop_out_of_bounds) (simp_all add: len toInt32_def)
  show "compareRandom n n (- 2147483648) endpointA = Inl OutOfBounds"
    unfolding compareRandom_equal_sizes
    by (rule compareLoop_out_of_bounds) (simp_all add: len toInt32_def)
  show "compareRandom n n 4 endpointA = Inr True"
    by (rule endpointA_compare)
  show "drop 1 (keyVector endpointA) = drop 1 (peerKeyVector endpointA)"
    by (simp add: endpointA_def exampleState_def)
qed

text \<open>
  With equal storage sizes the code compares the whole storage, not the vectors up to
  their lengths: a stale byte beyond the length decides.
\<close>

lemma compareRandom_reads_stale_storage:
  "compareRandom n n 4 staleKeys = Inr False \<and> compareRandom_spec staleKeys = True"
  unfolding compareRandom_equal_sizes staleKeys_def exampleState_def by code_simp

text \<open>
  Claim C3 (comparison over the explicit lengths, excess bytes decide) fails on the
  code, whatever the unassigned local \<^verbatim>\<open>size\<close> holds. With storage sizes 2 and 3 the
  peer's only excess byte, at index 2, is not zero, so the comparison as specified
  answers false; the excess loop of the code starts at index 2 and runs while the index
  is above 2, so it reads nothing, and the code answers true on byte 1. With equal
  storage sizes and vectors that differ in byte 0 only, the comparison as specified
  answers false on byte 0; the code never answers false. (On both inputs the peer's
  vector is the larger number whichever end is taken as the most significant.)
\<close>

theorem compareRandom_skips_excess_byte:
  "compareRandom 2 3 s unequalKeys = Inr True
   \<and> compareRandom_spec unequalKeys = False
   \<and> compareRandom n n s endpointA \<noteq> Inr False
   \<and> compareRandom_spec endpointA = False"
proof (intro conjI)
  show "compareRandom 2 3 s unequalKeys = Inr True"
    unfolding unequalKeys_def exampleState_def by code_simp
  show "compareRandom_spec unequalKeys = False"
    unfolding unequalKeys_def exampleState_def by code_simp
  show "compareRandom n n s endpointA \<noteq> Inr False"
    unfolding compareRandom_equal_sizes
    by (rule compareLoop_agree_not_false) (rule endpoints_agree_above_byte0)+
  show "compareRandom_spec endpointA = False"
    unfolding endpointA_def exampleState_def by code_simp
qed

subsection \<open>RIP route ageing and triggered updates\<close>

lemma isScheduled_triggerUpdate:
  "isScheduled triggeredUpdateTimer (triggerUpdate now u rip)"
  by (simp add: triggerUpdate_def isScheduled_def)

lemma uniform_range:
  "0 \<le> u \<Longrightarrow> u \<le> 1 \<Longrightarrow> 1 \<le> uniform 1 5 u \<and> uniform 1 5 u \<le> 5"
  by (simp add: uniform_def)

text \<open>
  Claim C6 (triggered-update idempotence). A second \<open>triggerUpdate\<close> before the timer
  fires changes nothing, and a call while the timer is scheduled changes nothing. From
  a router whose timer is not scheduled, two calls leave exactly one triggered-update
  event, scheduled by the first call; its delay is \<open>uniform 1 5\<close> of the generator's
  variate, which lies in \<open>[1, 5]\<close> for a variate in \<open>[0, 1]\<close>.
\<close>

theorem triggerUpdate_idempotent:
  "triggerUpdate now2 u2 (triggerUpdate now1 u1 rip) = triggerUpdate now1 u1 rip
   \<and> (isScheduled triggeredUpdateTimer rip \<longrightarrow> triggerUpdate now1 u1 rip = rip)
   \<and> (\<not> isScheduled triggeredUpdateTimer rip \<longrightarrow>
        filter (\<lambda>e. snd e = triggeredUpdateTimer)
          (scheduledTimers (triggerUpdate now2 u2 (triggerUpdate now1 u1 rip)))
          = [(now1 + uniform 1 5 u1, triggeredUpdateTimer)]
        \<and> (0 \<le> u1 \<and> u1 \<le> 1 \<longrightarrow> 1 \<le> uniform 1 5 u1 \<and> uniform 1 5 u1 \<le> 5))"
proof (intro conjI impI)
  show twice: "triggerUpdate now2 u2 (triggerUpdate now1 u1 rip) = triggerUpdate now1 u1 rip"
    using isScheduled_triggerUpdate [of now1 u1 rip]
    by (simp add: triggerUpdate_def [of now2 u2])
  show "triggerUpdate now1 u1 rip = rip" if "isScheduled triggeredUpdateTimer rip"
    using that by (simp add: triggerUpdate_def)
  show "filter (\<lambda>e. snd e = triggeredUpdateTimer)
          (scheduledTimers (triggerUpdate now2 u2 (triggerUpdate now1 u1 rip)))
          = [(now1 + uniform 1 5 u1, triggeredUpdateTimer)]"
    if "\<not> isScheduled triggeredUpdateTimer rip"
  proof -
    from that have "filter (\<lambda>e. snd e = triggeredUpdateTimer) (scheduledTimers rip) = []"
      by (simp add: isScheduled_def list_ex_iff filter_empty_conv)
    then show ?thesis
      unfolding twice using that by (simp add: triggerUpdate_def)
  qed
  show "1 \<le> uniform 1 5 u1" "uniform 1 5 u1 \<le> 5" if "0 \<le> u1 \<and> u1 \<le> 1"
    using that uniform_range [of u1] by simp_all
qed

text \<open>C6 at the example router, calls at times 7 and 8.\<close>

theorem triggerUpdate_idempotent_witness:
  "\<not> isScheduled triggeredUpdateTimer exampleRouter
   \<and> (0::real) \<le> 1 / 2 \<and> (1::real) / 2 \<le> 1
   \<and> scheduledTimers (triggerUpdate 8 (1 / 4) (triggerUpdate 7 (1 / 2) exampleRouter))
       = [(10, triggeredUpdateTimer)]
   \<and> uniform 1 5 (1 / 2) = 3"
proof -
  have idle: "\<not> isScheduled triggeredUpdateTimer exampleRouter"
    by (simp add: isScheduled_def exampleRouter_def)
  have run: "scheduledTimers (triggerUpdate 7 (1 / 2) exampleRouter) = [(10, triggeredUpdateTimer)]"
    by (simp add: triggerUpdate_def isScheduled_def exampleRouter_def uniform_def)
  have val: "uniform 1 5 (1 / 2) = 3" by (simp add: uniform_def)
  from idle run val
    triggerUpdate_idempotent [where rip = exampleRouter and ?now1.0 = 7 and ?u1.0 = "1 / 2"
      and ?now2.0 = 8 and ?u2.0 = "1 / 4"]
  show ?thesis by simp
qed

lemma purgeRoute_removes:
  "\<not> list_ex (\<lambda>x. route x = route r) (ripRoutes (purgeRoute rip r))"
  by (simp add: purgeRoute_def list_ex_iff)

lemma purgeTime_ageing:
  "purgeTime r = Some p \<longleftrightarrow> \<not> noExpiry r \<and> p = lastUpdateTime r + 300"
  by (auto simp add: purgeTime_def expiryTime_def routeExpiryTime_def routePurgeTime_def)

lemma checkRoute_purged:
  "\<not> noExpiry r \<Longrightarrow> lastUpdateTime r + 300 \<le> now \<Longrightarrow>
   checkRoute now u rip r = (None, purgeRoute rip r)"
  by (simp add: checkRoute_def routeExpiryTime_def routePurgeTime_def)

lemma checkRoute_returned:
  "fst (checkRoute now u rip r) = Some r' \<Longrightarrow>
   r' = r \<and> (noExpiry r \<or> now < lastUpdateTime r + 180)"
  by (auto simp add: checkRoute_def routeExpiryTime_def routePurgeTime_def split: if_splits)

text \<open>
  Claim C5 (expiry ordering). For every route, an expiry deadline is the last update
  time plus 180 s and a purge deadline is the expiry deadline plus 120 s; a route that
  ages has both, a route that does not age has neither. \<open>checkRoute\<close> never returns a
  route whose purge deadline has passed: at or after that deadline it returns no route
  and the route is removed from the table.
\<close>

theorem checkRoute_deadlines:
  "(\<forall>e. expiryTime r = Some e \<longrightarrow> e = lastUpdateTime r + 180)
   \<and> (\<forall>p. purgeTime r = Some p \<longrightarrow> (\<exists>e. expiryTime r = Some e \<and> p = e + 120))
   \<and> (\<not> noExpiry r \<longrightarrow> expiryTime r \<noteq> None \<and> purgeTime r \<noteq> None)
   \<and> (\<forall>p. purgeTime r = Some p \<and> p \<le> now \<longrightarrow>
          fst (checkRoute now u rip r) = None
          \<and> \<not> list_ex (\<lambda>x. route x = route r) (ripRoutes (snd (checkRoute now u rip r))))
   \<and> (\<forall>r' p. fst (checkRoute now u rip r) = Some r' \<and> purgeTime r = Some p \<longrightarrow> now < p)"
proof (intro conjI allI impI)
  fix e assume "expiryTime r = Some e"
  then show "e = lastUpdateTime r + 180"
    by (simp add: expiryTime_def routeExpiryTime_def split: if_splits)
next
  fix p assume "purgeTime r = Some p"
  then show "\<exists>e. expiryTime r = Some e \<and> p = e + 120"
    by (auto simp add: purgeTime_def routePurgeTime_def split: option.splits)
next
  assume "\<not> noExpiry r"
  then show "expiryTime r \<noteq> None" "purgeTime r \<noteq> None"
    by (simp_all add: purgeTime_def expiryTime_def)
next
  fix p assume "purgeTime r = Some p \<and> p \<le> now"
  then have "\<not> noExpiry r" "lastUpdateTime r + 300 \<le> now"
    by (simp_all add: purgeTime_ageing)
  then have gone: "checkRoute now u rip r = (None, purgeRoute rip r)"
    by (rule checkRoute_purged)
  show "fst (checkRoute now u rip r) = None" by (simp add: gone)
  show "\<not> list_ex (\<lambda>x. route x = route r) (ripRoutes (snd (checkRoute now u rip r)))"
    by (simp add: gone purgeRoute_removes)
next
  fix r' p assume h: "fst (checkRoute now u rip r) = Some r' \<and> purgeTime r = Some p"
  then have "\<not> noExpiry r" "p = lastUpdateTime r + 300" by (simp_all add: purgeTime_ageing)
  moreover from h have "noExpiry r \<or> now < lastUpdateTime r + 180"
    using checkRoute_returned [of now u rip r r'] by simp
  ultimately show "now < p" by auto
qed

text \<open>
  C5 at the example router: the learned route, last updated at 10, has the deadlines
  190 and 310, is returned at 100 and not at 310; the static route has no deadline and
  is returned.
\<close>

theorem checkRoute_deadlines_witness:
  "expiryTime exampleRoute = Some 190
   \<and> purgeTime exampleRoute = Some 310
   \<and> \<not> noExpiry exampleRoute
   \<and> fst (checkRoute 310 0 exampleRouter exampleRoute) = None
   \<and> ripRoutes (snd (checkRoute 310 0 exampleRouter exampleRoute)) = [staticRoute]
   \<and> fst (checkRoute 100 0 exampleRouter exampleRoute) = Some exampleRoute
   \<and> purgeTime staticRoute = None
   \<and> fst (checkRoute 1000 0 exampleRouter staticRoute) = Some staticRoute"
proof -
  have ages: "\<not> noExpiry exampleRoute"
    by (simp add: noExpiry_def exampleRoute_def newRIPRoute_def)
  have e: "expiryTime exampleRoute = Some 190"
    by (simp add: expiryTime_def ages routeExpiryTime_def) (simp add: exampleRoute_def)
  have p: "purgeTime exampleRoute = Some 310"
    by (simp add: purgeTime_def e routePurgeTime_def)
  have table: "ripRoutes (snd (checkRoute 310 0 exampleRouter exampleRoute)) = [staticRoute]"
    by (simp add: checkRoute_def purgeRoute_def noExpiry_def routeExpiryTime_def
        routePurgeTime_def exampleRouter_def exampleRoute_def staticRoute_def newRIPRoute_def)
  have live: "fst (checkRoute 100 0 exampleRouter exampleRoute) = Some exampleRoute"
    by (simp add: checkRoute_def ages routeExpiryTime_def routePurgeTime_def)
      (simp add: exampleRoute_def)
  have fixed: "purgeTime staticRoute = None"
    by (simp add: purgeTime_def expiryTime_def noExpiry_def staticRoute_def newRIPRoute_def)
  have kept: "fst (checkRoute 1000 0 exampleRouter staticRoute) = Some staticRoute"
    by (simp add: checkRoute_def noExpiry_def staticRoute_def newRIPRoute_def)
  from ages e p table live fixed kept
    checkRoute_deadlines [where r = exampleRoute and now = 310 and u = 0 and rip = exampleRouter]
  show ?thesis by simp
qed

end
